theory Spec2Isabelle
  imports Main
begin

section \<open>The login widget of mgt-login.ts\<close>

text \<open>
  The component \<^verbatim>\<open>MgtLogin\<close> (src/components/mgt-login/mgt-login.ts) is embedded
  with explicit state passing. A run of one of its methods takes the world (the widget's
  fields, the global provider and a trace of what the method did to its collaborators)
  and returns the world afterwards; an \<^verbatim>\<open>async\<close> method returns in addition how
  its promise settles.

  Conventions of the embedding:
  \<^item> a JavaScript field that is tested for truthiness only (\<^verbatim>\<open>userDetails\<close>, an
    object or \<^verbatim>\<open>null\<close>/\<^verbatim>\<open>undefined\<close>) is an \<open>option\<close>; \<^verbatim>\<open>null\<close> and
    \<^verbatim>\<open>undefined\<close> are both \<open>None\<close>;
  \<^item> an \<^verbatim>\<open>await\<close> is run to its end in one piece: the awaited operation either
    resolves or rejects, and no other handler of the page runs in between;
  \<^item> the type \<open>'p\<close> is the person object (\<^verbatim>\<open>IDynamicPerson\<close>), the type \<open>'x\<close>
    is whatever a collaborator throws.
\<close>

subsection \<open>Collaborators\<close>

text \<open>
  Modelled from the spec: the enum \<^verbatim>\<open>ProviderState\<close> is imported from
  providers/IProvider, which is not among the sources. The spec has "an external enum
  {SignedOut, SignedIn, Loading} owned by the authentication provider"; the widget
  compares it with \<^verbatim>\<open>ProviderState.SignedIn\<close> only.
\<close>

datatype ProviderState = Loading | SignedOut | SignedIn

text \<open>How an awaited promise settles.\<close>

datatype 'x completion = Resolved | Rejected 'x

text \<open>
  One request of a batch, as \<^verbatim>\<open>batch.get(id, resource, scopes)\<close> records it, and the
  two properties the widget reads from the response of \<^verbatim>\<open>batch.execute()\<close>.
\<close>

type_synonym batch_request = "string \<times> string \<times> string list"

record 'p batch_response =
  me :: "'p option"
  photo :: "string option"

text \<open>
  Modelled from the spec: the interface of the provider (\<^verbatim>\<open>Providers.globalProvider\<close>)
  is not among the sources. The spec has "an authentication-provider capability set
  {login(), logout(), state, graph-batch-fetch}"; these are the four members the widget
  uses. The widget tests \<^verbatim>\<open>login\<close> and \<^verbatim>\<open>logout\<close> for presence before it calls
  them, so they are optional; when called they settle a promise and may have changed the
  provider's state. \<open>graph\<close> stands for
  \<^verbatim>\<open>provider.graph.forComponent(this).createBatch()\<close> followed by
  \<^verbatim>\<open>execute()\<close>: it maps the requests of the batch to a rejection or a response.
\<close>

record ('p, 'x) IProvider =
  state :: ProviderState
  login_op :: "(ProviderState \<Rightarrow> 'x completion \<times> ProviderState) option"
  logout_op :: "(ProviderState \<Rightarrow> 'x completion \<times> ProviderState) option"
  graph :: "batch_request list \<Rightarrow> 'x + 'p batch_response"

text \<open>
  Modelled from the spec: the flyout element (\<^verbatim>\<open>MgtFlyout\<close>,
  sub-components/mgt-flyout) is not among the sources. The spec's flyout is a "popup
  panel" that is open or closed.
\<close>

record MgtFlyout =
  isOpen :: bool

subsection \<open>The widget\<close>

datatype LoginButtonType = avatar | name | avatarAndName

text \<open>
  The fields of \<^verbatim>\<open>MgtLogin\<close>. \<open>isFlyoutOpen\<close> and \<open>image\<close> are the private
  \<^verbatim>\<open>_isFlyoutOpen\<close> and \<^verbatim>\<open>_image\<close>; \<open>flyout\<close> is what the getter
  \<^verbatim>\<open>this.renderRoot.querySelector('.flyout')\<close> finds: nothing before the first
  rendering, the element afterwards.
\<close>

record 'p MgtLogin =
  userDetails :: "'p option"
  buttonType :: LoginButtonType
  isFlyoutOpen :: bool
  image :: "string option"
  flyout :: "MgtFlyout option"

datatype event_name =
  loginInitiated | loginCompleted | loginFailed | logoutInitiated | logoutCompleted

text \<open>
  The trace: a notification that was dispatched, together with the widget as a
  listener sees it at that moment, or a call into a collaborator.
\<close>

datatype 'p action =
    Fired event_name "'p MgtLogin"
  | ProviderLogin
  | ProviderLogout
  | BatchExecute "batch_request list"
  | FlyoutOpen
  | FlyoutClose

record ('p, 'x) world =
  widget :: "'p MgtLogin"
  globalProvider :: "('p, 'x) IProvider option"
  trace :: "'p action list"

text \<open>
  The host page's listeners: \<open>L ev w\<close> holds when a listener of the notification
  \<open>ev\<close>, seeing the widget \<open>w\<close>, suppresses it.
\<close>

type_synonym 'p listeners = "event_name \<Rightarrow> 'p MgtLogin \<Rightarrow> bool"

text \<open>The constructor: the flyout flag is false, the button shows avatar and name.\<close>

definition MgtLogin_new :: "'p MgtLogin" where
  "MgtLogin_new =
     \<lparr>userDetails = None, buttonType = avatarAndName, isFlyoutOpen = False,
      image = None, flyout = None\<rparr>"

text \<open>
  Modelled from the spec: \<^verbatim>\<open>fireCustomEvent\<close> is inherited from
  \<^verbatim>\<open>MgtBaseComponent\<close> (components/baseComponent), which is not among the sources.
  The spec has the notifications "each cancelable/observable by host page listeners"
  and \<^verbatim>\<open>login()\<close> a "no-op if a login initiated notification is suppressed by a
  listener": the call dispatches the notification and returns false exactly when a
  listener suppressed it.
\<close>

definition fireCustomEvent ::
  "'p listeners \<Rightarrow> event_name \<Rightarrow> ('p, 'x) world \<Rightarrow> bool \<times> ('p, 'x) world" where
  "fireCustomEvent L ev s =
     (\<not> L ev (widget s), s\<lparr>trace := trace s @ [Fired ev (widget s)]\<rparr>)"

text \<open>
  The handlers that \<^verbatim>\<open>renderFlyout\<close> installs for the flyout's events \<^verbatim>\<open>opened\<close>
  and \<^verbatim>\<open>closed\<close> (lines 218 and 219).
\<close>

definition on_opened :: "'p MgtLogin \<Rightarrow> 'p MgtLogin" where
  "on_opened w = w\<lparr>isFlyoutOpen := True\<rparr>"

definition on_closed :: "'p MgtLogin \<Rightarrow> 'p MgtLogin" where
  "on_closed w = w\<lparr>isFlyoutOpen := False\<rparr>"

text \<open>
  Modelled from the spec: \<^verbatim>\<open>MgtFlyout.open()\<close> is not among the sources. In the
  spec a click on a signed-in widget "opens the detail flyout": the panel is open
  afterwards and has told the widget so through its \<^verbatim>\<open>opened\<close> event.
\<close>

definition flyout_open :: "MgtFlyout \<Rightarrow> 'p MgtLogin \<Rightarrow> 'p MgtLogin" where
  "flyout_open f w = on_opened (w\<lparr>flyout := Some (f\<lparr>isOpen := True\<rparr>)\<rparr>)"

text \<open>
  Modelled from the spec: \<^verbatim>\<open>MgtFlyout.close()\<close> is not among the sources. In the
  spec \<^verbatim>\<open>logout()\<close> "closes any open flyout": the panel is closed afterwards and
  has told the widget so through its \<^verbatim>\<open>closed\<close> event.
\<close>

definition flyout_close :: "MgtFlyout \<Rightarrow> 'p MgtLogin \<Rightarrow> 'p MgtLogin" where
  "flyout_close f w = on_closed (w\<lparr>flyout := Some (f\<lparr>isOpen := False\<rparr>)\<rparr>)"

subsection \<open>login and logout\<close>

text \<open>
  \<^verbatim>\<open>login()\<close>, lines 111 to 127. The disjunction of line 112 is evaluated from the
  left: with user details present no notification is dispatched.
\<close>

definition login ::
  "'p listeners \<Rightarrow> ('p, 'x) world \<Rightarrow> 'x completion \<times> ('p, 'x) world" where
  "login L s =
     (if userDetails (widget s) \<noteq> None then (Resolved, s)
      else
        case fireCustomEvent L loginInitiated s of
          (ok, s1) \<Rightarrow>
            if \<not> ok then (Resolved, s1)
            else
              (case globalProvider s1 of
                 None \<Rightarrow> (Resolved, s1)
               | Some provider \<Rightarrow>
                   (case login_op provider of
                      None \<Rightarrow> (Resolved, s1)
                    | Some f \<Rightarrow>
                        (case f (state provider) of
                           (r, st) \<Rightarrow>
                             let s2 = s1\<lparr>globalProvider := Some (provider\<lparr>state := st\<rparr>),
                                         trace := trace s1 @ [ProviderLogin]\<rparr>
                             in
                               (case r of
                                  Rejected e \<Rightarrow> (Rejected e, s2)
                                | Resolved \<Rightarrow>
                                    if st = SignedIn
                                    then (Resolved, snd (fireCustomEvent L loginCompleted s2))
                                    else (Resolved, snd (fireCustomEvent L loginFailed s2)))))))"

text \<open>\<^verbatim>\<open>hideFlyout()\<close> and \<^verbatim>\<open>showFlyout()\<close>, lines 308 to 326.\<close>

definition showFlyout :: "('p, 'x) world \<Rightarrow> ('p, 'x) world" where
  "showFlyout s =
     (case flyout (widget s) of
        None \<Rightarrow> s
      | Some f \<Rightarrow> s\<lparr>widget := flyout_open f (widget s), trace := trace s @ [FlyoutOpen]\<rparr>)"

definition hideFlyout :: "('p, 'x) world \<Rightarrow> ('p, 'x) world" where
  "hideFlyout s =
     (case flyout (widget s) of
        None \<Rightarrow> s
      | Some f \<Rightarrow> s\<lparr>widget := flyout_close f (widget s), trace := trace s @ [FlyoutClose]\<rparr>)"

text \<open>\<^verbatim>\<open>logout()\<close>, lines 135 to 147.\<close>

definition logout ::
  "'p listeners \<Rightarrow> ('p, 'x) world \<Rightarrow> 'x completion \<times> ('p, 'x) world" where
  "logout L s =
     (case fireCustomEvent L logoutInitiated s of
        (ok, s1) \<Rightarrow>
          if \<not> ok then (Resolved, s1)
          else
            (case globalProvider s1 of
               None \<Rightarrow> (Resolved, s1)
             | Some provider \<Rightarrow>
                 (case logout_op provider of
                    None \<Rightarrow> (Resolved, s1)
                  | Some f \<Rightarrow>
                      (case f (state provider) of
                         (r, st) \<Rightarrow>
                           let s2 = s1\<lparr>globalProvider := Some (provider\<lparr>state := st\<rparr>),
                                       trace := trace s1 @ [ProviderLogout]\<rparr>
                           in
                             (case r of
                                Rejected e \<Rightarrow> (Rejected e, s2)
                              | Resolved \<Rightarrow>
                                  let s3 = s2\<lparr>widget := (widget s2)\<lparr>userDetails := None\<rparr>\<rparr>;
                                      s4 = hideFlyout s3
                                  in (Resolved, snd (fireCustomEvent L logoutCompleted s4)))))))"

subsection \<open>loadState\<close>

text \<open>
  The batch of \<^verbatim>\<open>loadState()\<close>: \<^verbatim>\<open>createBatch()\<close> gives an empty batch and each
  \<^verbatim>\<open>batch.get\<close> adds one request to it.
\<close>

definition createBatch :: "batch_request list" where
  "createBatch = []"

definition batch_get ::
  "string \<Rightarrow> string \<Rightarrow> string list \<Rightarrow> batch_request list \<Rightarrow> batch_request list" where
  "batch_get ident resource scopes batch = batch @ [(ident, resource, scopes)]"

text \<open>\<^verbatim>\<open>loadState()\<close>, lines 172 to 187.\<close>

definition loadState :: "('p, 'x) world \<Rightarrow> 'x completion \<times> ('p, 'x) world" where
  "loadState s =
     (case globalProvider s of
        None \<Rightarrow> (Resolved, s)
      | Some provider \<Rightarrow>
          if userDetails (widget s) \<noteq> None then (Resolved, s)
          else if state provider = SignedIn then
            (let batch = batch_get ''photo'' ''me/photo/$value'' [''user.read'']
                           (batch_get ''me'' ''me'' [''user.read''] createBatch);
                 s1 = s\<lparr>trace := trace s @ [BatchExecute batch]\<rparr>
             in
               case graph provider batch of
                 Inl e \<Rightarrow> (Rejected e, s1)
               | Inr response \<Rightarrow>
                   (Resolved,
                    s1\<lparr>widget := (widget s1)\<lparr>image := photo response,
                                              userDetails := me response\<rparr>\<rparr>))
          else (Resolved, s\<lparr>widget := (widget s)\<lparr>userDetails := None\<rparr>\<rparr>))"

subsection \<open>Rendering and clicks\<close>

text \<open>
  \<^verbatim>\<open>renderFlyout()\<close>, lines 213 to 226: every rendering contains the flyout element
  with the two handlers; an element that is already there is kept.
\<close>

definition renderFlyout :: "'p MgtLogin \<Rightarrow> 'p MgtLogin" where
  "renderFlyout w =
     (case flyout w of None \<Rightarrow> w\<lparr>flyout := Some \<lparr>isOpen = False\<rparr>\<rparr> | Some f \<Rightarrow> w)"

text \<open>
  \<^verbatim>\<open>renderFlyoutContent()\<close>, lines 235 to 265: nothing without user details,
  otherwise the person (with the cached image, in large size) and the commands.
\<close>

record 'p popup =
  personDetails :: 'p
  personImage :: "string option"
  avatarSize :: string
  commands :: "string list"

definition renderFlyoutContent :: "'p MgtLogin \<Rightarrow> 'p popup option" where
  "renderFlyoutContent w =
     (case userDetails w of
        None \<Rightarrow> None
      | Some u \<Rightarrow>
          Some \<lparr>personDetails = u, personImage = image w, avatarSize = ''large'',
                commands = [''Sign Out'']\<rparr>)"

text \<open>
  \<^verbatim>\<open>onClick()\<close>, lines 328 to 334. The promise of \<^verbatim>\<open>this.login()\<close> is not
  awaited, so how it settles is dropped.
\<close>

definition onClick :: "'p listeners \<Rightarrow> ('p, 'x) world \<Rightarrow> ('p, 'x) world" where
  "onClick L s =
     (if userDetails (widget s) \<noteq> None then showFlyout s else snd (login L s))"

subsection \<open>The widget as a transition system\<close>

text \<open>
  What can happen to a widget, one handler at a time: a click on its button, a call of
  a public method (\<open>CallLogout\<close> is also the Sign Out command of the flyout), a
  \<^verbatim>\<open>loadState()\<close>, a rendering, the flyout dismissed by a click outside of it, the
  host page assigning the public properties \<^verbatim>\<open>userDetails\<close> and
  \<^verbatim>\<open>buttonType\<close>, and a change of the global provider.
\<close>

datatype ('p, 'x) input =
    Click
  | CallLogin
  | CallLogout
  | LoadState
  | Render
  | LightDismiss
  | SetUserDetails "'p option"
  | SetButtonType LoginButtonType
  | SetProvider "('p, 'x) IProvider option"

fun step :: "'p listeners \<Rightarrow> ('p, 'x) input \<Rightarrow> ('p, 'x) world \<Rightarrow> ('p, 'x) world" where
  "step L Click s = onClick L s"
| "step L CallLogin s = snd (login L s)"
| "step L CallLogout s = snd (logout L s)"
| "step L LoadState s = snd (loadState s)"
| "step L Render s = s\<lparr>widget := renderFlyout (widget s)\<rparr>"
| "step L LightDismiss s =
     (case flyout (widget s) of
        None \<Rightarrow> s
      | Some f \<Rightarrow> s\<lparr>widget := flyout_close f (widget s)\<rparr>)"
| "step L (SetUserDetails v) s = s\<lparr>widget := (widget s)\<lparr>userDetails := v\<rparr>\<rparr>"
| "step L (SetButtonType b) s = s\<lparr>widget := (widget s)\<lparr>buttonType := b\<rparr>\<rparr>"
| "step L (SetProvider p) s = s\<lparr>globalProvider := p\<rparr>"

fun run :: "'p listeners \<Rightarrow> ('p, 'x) input list \<Rightarrow> ('p, 'x) world \<Rightarrow> ('p, 'x) world" where
  "run L [] s = s"
| "run L (i # is) s = run L is (step L i s)"

text \<open>The host page takes the user details away while the flyout flag is set.\<close>

fun clears_open :: "('p, 'x) input \<Rightarrow> ('p, 'x) world \<Rightarrow> bool" where
  "clears_open (SetUserDetails None) s = isFlyoutOpen (widget s)"
| "clears_open i s = False"

text \<open>A run in which that never happens.\<close>

fun orderly :: "'p listeners \<Rightarrow> ('p, 'x) input list \<Rightarrow> ('p, 'x) world \<Rightarrow> bool" where
  "orderly L [] s = True"
| "orderly L (i # is) s = (\<not> clears_open i s \<and> orderly L is (step L i s))"

text \<open>A freshly constructed widget, with whatever provider the page has.\<close>

definition initial :: "('p, 'x) IProvider option \<Rightarrow> ('p, 'x) world" where
  "initial p = \<lparr>widget = MgtLogin_new, globalProvider = p, trace = []\<rparr>"

text \<open>
  The invariant of orderly runs: with the flyout flag set there are user details, and
  the flyout element exists.
\<close>

definition flyout_inv :: "'p MgtLogin \<Rightarrow> bool" where
  "flyout_inv w = (if isFlyoutOpen w then userDetails w \<noteq> None \<and> flyout w \<noteq> None else True)"

subsection \<open>Reading the trace\<close>

text \<open>The notifications of a trace, and what a call added to the trace.\<close>

fun fired :: "'p action list \<Rightarrow> event_name list" where
  "fired [] = []"
| "fired (Fired ev w # as) = ev # fired as"
| "fired (a # as) = fired as"

definition since :: "('p, 'x) world \<Rightarrow> ('p, 'x) world \<Rightarrow> 'p action list" where
  "since s s' = drop (length (trace s)) (trace s')"

text \<open>The provider is missing or has no \<^verbatim>\<open>login\<close>, respectively \<^verbatim>\<open>logout\<close>.\<close>

definition no_login_op :: "('p, 'x) world \<Rightarrow> bool" where
  "no_login_op s =
     (case globalProvider s of
        None \<Rightarrow> True
      | Some provider \<Rightarrow> (case login_op provider of None \<Rightarrow> True | Some f \<Rightarrow> False))"

definition no_logout_op :: "('p, 'x) world \<Rightarrow> bool" where
  "no_logout_op s =
     (case globalProvider s of
        None \<Rightarrow> True
      | Some provider \<Rightarrow> (case logout_op provider of None \<Rightarrow> True | Some f \<Rightarrow> False))"

subsection \<open>Example worlds\<close>

text \<open>
  A provider whose \<^verbatim>\<open>login\<close> is given, whose \<^verbatim>\<open>logout\<close> signs out and whose
  graph answers every batch with one person and her photo; persons and exceptions are
  strings here.
\<close>

definition ada :: "string batch_response" where
  "ada = \<lparr>me = Some ''Ada'', photo = Some ''blob:ada''\<rparr>"

definition provider_with ::
  "ProviderState \<Rightarrow> (ProviderState \<Rightarrow> string completion \<times> ProviderState) option \<Rightarrow>
   (string, string) IProvider" where
  "provider_with st op =
     \<lparr>state = st, login_op = op, logout_op = Some (\<lambda>_. (Resolved, SignedOut)),
      graph = (\<lambda>_. Inr ada)\<rparr>"

definition login_succeeds :: "ProviderState \<Rightarrow> string completion \<times> ProviderState" where
  "login_succeeds st = (Resolved, SignedIn)"

definition login_declined :: "ProviderState \<Rightarrow> string completion \<times> ProviderState" where
  "login_declined st = (Resolved, SignedOut)"

definition login_throws :: "ProviderState \<Rightarrow> string completion \<times> ProviderState" where
  "login_throws st = (Rejected ''popup blocked'', st)"

definition nobody_cancels :: "string listeners" where
  "nobody_cancels ev w = False"

definition cancel_login :: "string listeners" where
  "cancel_login ev w = (case ev of loginInitiated \<Rightarrow> True | _ \<Rightarrow> False)"

text \<open>A widget showing Ada with her photo, rendered, the flyout closed.\<close>

definition signed_in_widget :: "string MgtLogin" where
  "signed_in_widget =
     \<lparr>userDetails = Some ''Ada'', buttonType = avatarAndName, isFlyoutOpen = False,
      image = Some ''blob:ada'', flyout = Some \<lparr>isOpen = False\<rparr>\<rparr>"

definition signed_in_world ::
  "(string, string) IProvider option \<Rightarrow> (string, string) world" where
  "signed_in_world p = \<lparr>widget = signed_in_widget, globalProvider = p, trace = []\<rparr>"

subsection \<open>Auxiliary facts\<close>

text \<open>What each method can have done to the widget's fields.\<close>

lemma login_widget: "widget (snd (login L s)) = widget s"
  by (simp add: login_def fireCustomEvent_def Let_def
      split: option.splits prod.splits completion.splits)

lemma logout_widget:
  "widget (snd (logout L s)) = widget s
   \<or> (flyout (widget s) = None
       \<and> widget (snd (logout L s)) = (widget s)\<lparr>userDetails := None\<rparr>)
   \<or> (\<exists>f. flyout (widget s) = Some f
        \<and> widget (snd (logout L s)) = flyout_close f ((widget s)\<lparr>userDetails := None\<rparr>))"
  by (simp add: logout_def fireCustomEvent_def hideFlyout_def Let_def
      split: option.splits prod.splits completion.splits)

lemma loadState_widget:
  "widget (snd (loadState s)) = widget s
   \<or> (userDetails (widget s) = None
       \<and> (\<exists>u i. widget (snd (loadState s)) = (widget s)\<lparr>image := i, userDetails := u\<rparr>))"
  by (simp add: loadState_def Let_def split: option.splits sum.splits) blast

lemma showFlyout_widget:
  "widget (showFlyout s) = widget s
   \<or> (\<exists>f. flyout (widget s) = Some f \<and> widget (showFlyout s) = flyout_open f (widget s))"
  by (simp add: showFlyout_def split: option.splits)

lemma onClick_widget:
  "widget (onClick L s) = widget s
   \<or> (userDetails (widget s) \<noteq> None
       \<and> (\<exists>f. flyout (widget s) = Some f \<and> widget (onClick L s) = flyout_open f (widget s)))"
  using showFlyout_widget [of s] by (auto simp add: onClick_def login_widget)

text \<open>The invariant is kept by every step of an orderly run.\<close>

lemma step_flyout_inv:
  assumes "flyout_inv (widget s)" and "\<not> clears_open i s"
  shows "flyout_inv (widget (step L i s))"
proof (cases i)
  case Click
  with assms(1) onClick_widget [of L s] show ?thesis
    by (auto simp add: flyout_inv_def flyout_open_def on_opened_def split: if_splits)
next
  case CallLogin
  with assms(1) show ?thesis by (simp add: login_widget)
next
  case CallLogout
  with assms(1) logout_widget [of L s] show ?thesis
    by (auto simp add: flyout_inv_def flyout_close_def on_closed_def split: if_splits)
next
  case LoadState
  with assms(1) loadState_widget [of s] show ?thesis
    by (auto simp add: flyout_inv_def split: if_splits)
next
  case Render
  with assms(1) show ?thesis
    by (auto simp add: flyout_inv_def renderFlyout_def split: if_splits option.splits)
next
  case LightDismiss
  with assms(1) show ?thesis
    by (auto simp add: flyout_inv_def flyout_close_def on_closed_def
        split: if_splits option.splits)
next
  case (SetUserDetails v)
  with assms show ?thesis
    by (cases v) (auto simp add: flyout_inv_def split: if_splits)
next
  case (SetButtonType b)
  with assms(1) show ?thesis by (simp add: flyout_inv_def)
next
  case (SetProvider p)
  with assms(1) show ?thesis by simp
qed

lemma run_flyout_inv:
  "orderly L is s \<Longrightarrow> flyout_inv (widget s) \<Longrightarrow> flyout_inv (widget (run L is s))"
  by (induction "is" arbitrary: s) (simp_all add: step_flyout_inv)

text \<open>
  In every run, orderly or not, a set flyout flag means that the flyout element exists:
  only the element's \<^verbatim>\<open>opened\<close> event sets the flag.
\<close>

lemma step_flag_element:
  assumes "isFlyoutOpen (widget s) \<longrightarrow> flyout (widget s) \<noteq> None"
  shows "isFlyoutOpen (widget (step L i s)) \<longrightarrow> flyout (widget (step L i s)) \<noteq> None"
proof (cases i)
  case Click
  with assms onClick_widget [of L s] show ?thesis
    by (auto simp add: flyout_open_def on_opened_def)
next
  case CallLogin
  with assms show ?thesis by (simp add: login_widget)
next
  case CallLogout
  with assms logout_widget [of L s] show ?thesis
    by (auto simp add: flyout_close_def on_closed_def)
next
  case LoadState
  with assms loadState_widget [of s] show ?thesis by auto
next
  case Render
  with assms show ?thesis by (auto simp add: renderFlyout_def split: option.splits)
next
  case LightDismiss
  with assms show ?thesis
    by (auto simp add: flyout_close_def on_closed_def split: option.splits)
next
  case (SetUserDetails v)
  with assms show ?thesis by simp
next
  case (SetButtonType b)
  with assms show ?thesis by simp
next
  case (SetProvider p)
  with assms show ?thesis by simp
qed

lemma run_flag_element:
  "isFlyoutOpen (widget s) \<longrightarrow> flyout (widget s) \<noteq> None \<Longrightarrow>
   isFlyoutOpen (widget (run L is s)) \<longrightarrow> flyout (widget (run L is s)) \<noteq> None"
proof (induction "is" arbitrary: s)
  case Nil
  then show ?case by simp
next
  case (Cons i "is")
  from Cons.prems have "isFlyoutOpen (widget (step L i s)) \<longrightarrow> flyout (widget (step L i s)) \<noteq> None"
    by (rule step_flag_element)
  then show ?case using Cons.IH by simp
qed

lemma reachable_flag_element:
  "isFlyoutOpen (widget (run L is (initial p))) \<longrightarrow> flyout (widget (run L is (initial p))) \<noteq> None"
  by (rule run_flag_element) (simp add: initial_def MgtLogin_new_def)

subsection \<open>The outcome of login\<close>

text \<open>
  C1. Take a call of \<^verbatim>\<open>login()\<close> with no user details, no listener suppressing
  loginInitiated, and a global provider that has a \<^verbatim>\<open>login\<close> whose promise resolves,
  leaving the provider in state \<open>st\<close>. Then \<^verbatim>\<open>login()\<close> resolves, and after
  loginInitiated and the provider call it dispatches exactly one more notification:
  loginCompleted if \<open>st\<close> is \<open>SignedIn\<close>, loginFailed otherwise. So loginCompleted
  fires if and only if the provider is signed in at that point, loginFailed if and only
  if it is not, and never both.
\<close>

theorem login_outcome:
  assumes "userDetails (widget s) = None"
    and "\<not> L loginInitiated (widget s)"
    and "globalProvider s = Some p"
    and "login_op p = Some f"
    and "f (state p) = (Resolved, st)"
  shows "fst (login L s) = Resolved
    \<and> map_option state (globalProvider (snd (login L s))) = Some st
    \<and> since s (snd (login L s)) =
        [Fired loginInitiated (widget s), ProviderLogin,
         Fired (if st = SignedIn then loginCompleted else loginFailed) (widget s)]
    \<and> fired (since s (snd (login L s))) =
        [loginInitiated, if st = SignedIn then loginCompleted else loginFailed]
    \<and> (loginCompleted \<in> set (fired (since s (snd (login L s)))) \<longleftrightarrow> st = SignedIn)
    \<and> (loginFailed \<in> set (fired (since s (snd (login L s)))) \<longleftrightarrow> st \<noteq> SignedIn)"
  using assms by (simp add: login_def fireCustomEvent_def since_def Let_def)

theorem login_outcome_witness:
  "userDetails (widget (initial (Some (provider_with SignedOut (Some login_succeeds))))) = None
   \<and> \<not> nobody_cancels loginInitiated
         (widget (initial (Some (provider_with SignedOut (Some login_succeeds)))))
   \<and> login_op (provider_with SignedOut (Some login_succeeds)) = Some login_succeeds
   \<and> login_succeeds SignedOut = (Resolved, SignedIn)
   \<and> login_declined SignedOut = (Resolved, SignedOut)
   \<and> fired (since (initial (Some (provider_with SignedOut (Some login_succeeds))))
       (snd (login nobody_cancels
          (initial (Some (provider_with SignedOut (Some login_succeeds)))))))
     = [loginInitiated, loginCompleted]
   \<and> fired (since (initial (Some (provider_with SignedOut (Some login_declined))))
       (snd (login nobody_cancels
          (initial (Some (provider_with SignedOut (Some login_declined)))))))
     = [loginInitiated, loginFailed]"
  using login_outcome [of "initial (Some (provider_with SignedOut (Some login_succeeds)))"
      nobody_cancels "provider_with SignedOut (Some login_succeeds)" login_succeeds SignedIn]
    login_outcome [of "initial (Some (provider_with SignedOut (Some login_declined)))"
      nobody_cancels "provider_with SignedOut (Some login_declined)" login_declined SignedOut]
  by (simp add: initial_def MgtLogin_new_def provider_with_def nobody_cancels_def
      login_succeeds_def login_declined_def)

text \<open>
  C3. When \<^verbatim>\<open>login()\<close> dispatches loginInitiated (there are no user details) and a
  listener suppresses it, \<^verbatim>\<open>login()\<close> resolves having done nothing else: the world
  differs only by the one entry of the trace, so the provider's \<^verbatim>\<open>login\<close> was not
  called and neither loginCompleted nor loginFailed was dispatched.
\<close>

theorem login_suppressed:
  assumes "userDetails (widget s) = None"
    and "L loginInitiated (widget s)"
  shows "login L s = (Resolved, s\<lparr>trace := trace s @ [Fired loginInitiated (widget s)]\<rparr>)
    \<and> since s (snd (login L s)) = [Fired loginInitiated (widget s)]
    \<and> ProviderLogin \<notin> set (since s (snd (login L s)))
    \<and> loginCompleted \<notin> set (fired (since s (snd (login L s))))
    \<and> loginFailed \<notin> set (fired (since s (snd (login L s))))"
  using assms by (simp add: login_def fireCustomEvent_def since_def)

theorem login_suppressed_witness:
  "userDetails (widget (initial (Some (provider_with SignedOut (Some login_succeeds))))) = None
   \<and> cancel_login loginInitiated
        (widget (initial (Some (provider_with SignedOut (Some login_succeeds)))))
   \<and> fst (login cancel_login (initial (Some (provider_with SignedOut (Some login_succeeds)))))
       = Resolved
   \<and> trace (snd (login cancel_login
        (initial (Some (provider_with SignedOut (Some login_succeeds))))))
       = [Fired loginInitiated MgtLogin_new]"
  using login_suppressed [of "initial (Some (provider_with SignedOut (Some login_succeeds)))"
      cancel_login]
  by (simp add: initial_def MgtLogin_new_def cancel_login_def)

text \<open>
  C7. A call of \<^verbatim>\<open>login()\<close> made while user details are present is a no-op: the
  promise resolves and the world is the one before the call, so no notification was
  dispatched (not even loginInitiated), the provider was not called, and the user
  details, the cached image and the flyout flag are unchanged.
\<close>

theorem login_noop_when_user_present:
  "userDetails (widget s) \<noteq> None \<Longrightarrow>
   login L s = (Resolved, s) \<and> since s (snd (login L s)) = []"
  by (simp add: login_def since_def)

theorem login_noop_when_user_present_witness:
  "userDetails (widget (signed_in_world (Some (provider_with SignedOut (Some login_succeeds)))))
     \<noteq> None
   \<and> fst (login nobody_cancels
        (signed_in_world (Some (provider_with SignedOut (Some login_succeeds))))) = Resolved
   \<and> trace (snd (login nobody_cancels
        (signed_in_world (Some (provider_with SignedOut (Some login_succeeds)))))) = []
   \<and> widget (snd (login nobody_cancels
        (signed_in_world (Some (provider_with SignedOut (Some login_succeeds))))))
       = signed_in_widget"
  using login_noop_when_user_present
    [of "signed_in_world (Some (provider_with SignedOut (Some login_succeeds)))" nobody_cancels]
  by (simp add: signed_in_world_def signed_in_widget_def)

text \<open>
  C8. \<^verbatim>\<open>login()\<close> has no handler for exceptions. When the provider's \<^verbatim>\<open>login\<close>
  rejects with \<open>e\<close>, \<^verbatim>\<open>login()\<close> rejects with the same \<open>e\<close>, and after
  loginInitiated and the provider call nothing more is dispatched: neither
  loginCompleted nor loginFailed. Conversely, whenever a call of \<^verbatim>\<open>login()\<close>
  dispatches loginFailed, the provider's \<^verbatim>\<open>login\<close> had resolved and had left the
  provider in a state other than \<open>SignedIn\<close>.
\<close>

theorem login_rejection_propagates:
  "(userDetails (widget s) = None \<and> \<not> L loginInitiated (widget s)
      \<and> globalProvider s = Some p \<and> login_op p = Some f \<and> f (state p) = (Rejected e, st)
    \<longrightarrow> fst (login L s) = Rejected e
        \<and> since s (snd (login L s)) = [Fired loginInitiated (widget s), ProviderLogin]
        \<and> loginCompleted \<notin> set (fired (since s (snd (login L s))))
        \<and> loginFailed \<notin> set (fired (since s (snd (login L s)))))
   \<and> (loginFailed \<in> set (fired (since s (snd (login L s))))
    \<longrightarrow> (\<exists>q g st'. globalProvider s = Some q \<and> login_op q = Some g
          \<and> g (state q) = (Resolved, st') \<and> st' \<noteq> SignedIn))"
  by (auto simp add: login_def fireCustomEvent_def since_def Let_def
      split: option.splits prod.splits completion.splits if_splits)

theorem login_rejection_propagates_witness:
  "login_throws SignedOut = (Rejected ''popup blocked'', SignedOut)
   \<and> fst (login nobody_cancels (initial (Some (provider_with SignedOut (Some login_throws)))))
       = Rejected ''popup blocked''
   \<and> fired (trace (snd (login nobody_cancels
        (initial (Some (provider_with SignedOut (Some login_throws)))))))
       = [loginInitiated]
   \<and> loginFailed \<in> set (fired (since
        (initial (Some (provider_with SignedOut (Some login_declined))))
        (snd (login nobody_cancels
           (initial (Some (provider_with SignedOut (Some login_declined))))))))
   \<and> (\<exists>q g st'. globalProvider (initial (Some (provider_with SignedOut (Some login_declined))))
          = Some q \<and> login_op q = Some g
        \<and> g (state q) = (Resolved, st') \<and> st' \<noteq> SignedIn)"
proof -
  let ?t = "initial (Some (provider_with SignedOut (Some login_throws)))"
  let ?d = "initial (Some (provider_with SignedOut (Some login_declined)))"
  have fails: "loginFailed \<in> set (fired (since ?d (snd (login nobody_cancels ?d))))"
    by (simp add: login_def fireCustomEvent_def since_def initial_def MgtLogin_new_def
        provider_with_def nobody_cancels_def login_declined_def)
  from login_rejection_propagates [of ?d nobody_cancels] fails
  have ex: "\<exists>q g st'. globalProvider ?d = Some q \<and> login_op q = Some g
      \<and> g (state q) = (Resolved, st') \<and> st' \<noteq> SignedIn"
    by blast
  from login_rejection_propagates [of ?t nobody_cancels
      "provider_with SignedOut (Some login_throws)" login_throws "''popup blocked''" SignedOut]
  have "fst (login nobody_cancels ?t) = Rejected ''popup blocked''
      \<and> since ?t (snd (login nobody_cancels ?t)) = [Fired loginInitiated (widget ?t), ProviderLogin]"
    by (simp add: initial_def MgtLogin_new_def provider_with_def nobody_cancels_def
        login_throws_def)
  then have "fst (login nobody_cancels ?t) = Rejected ''popup blocked''
      \<and> fired (trace (snd (login nobody_cancels ?t))) = [loginInitiated]"
    by (simp add: since_def initial_def)
  with fails ex show ?thesis by (simp add: login_throws_def)
qed

text \<open>
  C9. When there is no global provider, or the provider has no \<^verbatim>\<open>login\<close>
  (respectively no \<^verbatim>\<open>logout\<close>), the call resolves and leaves the widget as it was:
  user details, cached image and flyout state are unchanged. All it adds to the trace is
  the initiated notification (which \<^verbatim>\<open>login()\<close> dispatches only when there are no
  user details): no provider call, no completed or failed notification.
\<close>

theorem no_provider_operation:
  "(no_login_op s \<longrightarrow>
      fst (login L s) = Resolved \<and> widget (snd (login L s)) = widget s
      \<and> since s (snd (login L s)) =
          (if userDetails (widget s) = None then [Fired loginInitiated (widget s)] else []))
   \<and> (no_logout_op s \<longrightarrow>
      fst (logout L s) = Resolved \<and> widget (snd (logout L s)) = widget s
      \<and> since s (snd (logout L s)) = [Fired logoutInitiated (widget s)])"
  by (auto simp add: login_def logout_def fireCustomEvent_def since_def no_login_op_def
      no_logout_op_def split: option.splits)

theorem no_provider_operation_witness:
  "no_login_op (initial None :: (string, string) world)
   \<and> no_logout_op (signed_in_world (Some ((provider_with SignedIn None)\<lparr>logout_op := None\<rparr>)))
   \<and> trace (snd (login nobody_cancels (initial None :: (string, string) world)))
       = [Fired loginInitiated MgtLogin_new]
   \<and> widget (snd (login nobody_cancels (initial None :: (string, string) world)))
       = MgtLogin_new
   \<and> trace (snd (logout nobody_cancels
        (signed_in_world (Some ((provider_with SignedIn None)\<lparr>logout_op := None\<rparr>)))))
       = [Fired logoutInitiated signed_in_widget]
   \<and> widget (snd (logout nobody_cancels
        (signed_in_world (Some ((provider_with SignedIn None)\<lparr>logout_op := None\<rparr>)))))
       = signed_in_widget"
  using no_provider_operation [of "initial None :: (string, string) world" nobody_cancels]
    no_provider_operation
      [of "signed_in_world (Some ((provider_with SignedIn None)\<lparr>logout_op := None\<rparr>))"
        nobody_cancels]
  by (simp add: no_login_op_def no_logout_op_def initial_def signed_in_world_def
      provider_with_def since_def MgtLogin_new_def)

text \<open>
  C10. Whatever the provider does, \<^verbatim>\<open>login()\<close> returns the widget's fields as it
  found them, the user details and the cached image among them. Of all that can happen
  to a widget, only \<^verbatim>\<open>loadState()\<close>, \<^verbatim>\<open>logout()\<close> and an assignment from the host
  page change the user details, and only \<^verbatim>\<open>loadState()\<close> changes the cached image;
  \<^verbatim>\<open>logout()\<close> either keeps the user details or clears them.
\<close>

theorem login_frame:
  "widget (snd (login L s)) = widget s
   \<and> userDetails (widget (snd (login L s))) = userDetails (widget s)
   \<and> image (widget (snd (login L s))) = image (widget s)
   \<and> (i = LoadState \<or> i = CallLogout \<or> (\<exists>v. i = SetUserDetails v)
      \<or> userDetails (widget (step L i s)) = userDetails (widget s))
   \<and> (i = LoadState \<or> image (widget (step L i s)) = image (widget s))
   \<and> (userDetails (widget (snd (logout L s))) = None
      \<or> userDetails (widget (snd (logout L s))) = userDetails (widget s))"
proof -
  have details: "i = LoadState \<or> i = CallLogout \<or> (\<exists>v. i = SetUserDetails v)
      \<or> userDetails (widget (step L i s)) = userDetails (widget s)"
    using onClick_widget [of L s]
    by (cases i)
      (auto simp add: login_widget renderFlyout_def flyout_open_def flyout_close_def
        on_opened_def on_closed_def split: option.splits)
  have img: "i = LoadState \<or> image (widget (step L i s)) = image (widget s)"
    using onClick_widget [of L s] logout_widget [of L s]
    by (cases i)
      (auto simp add: login_widget renderFlyout_def flyout_open_def flyout_close_def
        on_opened_def on_closed_def split: option.splits)
  have out: "userDetails (widget (snd (logout L s))) = None
      \<or> userDetails (widget (snd (logout L s))) = userDetails (widget s)"
    using logout_widget [of L s]
    by (auto simp add: flyout_close_def on_closed_def)
  from details img out show ?thesis by (simp add: login_widget)
qed

theorem login_frame_witness:
  "widget (snd (login nobody_cancels
      (initial (Some (provider_with SignedOut (Some login_succeeds)))))) = MgtLogin_new
   \<and> image (widget (step nobody_cancels CallLogout
      (signed_in_world (Some (provider_with SignedIn None))))) = Some ''blob:ada''"
  using login_frame [of nobody_cancels
      "initial (Some (provider_with SignedOut (Some login_succeeds)))" CallLogin]
    login_frame [of nobody_cancels "signed_in_world (Some (provider_with SignedIn None))"
      CallLogout]
  by (simp add: initial_def signed_in_world_def signed_in_widget_def)

subsection \<open>logout\<close>

text \<open>
  C2, as stated, has \<^verbatim>\<open>logout()\<close> clear the cached avatar image too. It does not:
  \<^verbatim>\<open>logout()\<close> assigns \<^verbatim>\<open>userDetails\<close> and nothing else, and no line of the
  file resets \<^verbatim>\<open>_image\<close>. For a widget that shows Ada with her photo, with no
  listener suppressing anything and a provider whose \<^verbatim>\<open>logout\<close> resolves, the image
  is still cached when logoutCompleted is dispatched, and afterwards.
\<close>

theorem logout_keeps_image_counterexample:
  "\<not> nobody_cancels logoutInitiated
       (widget (signed_in_world (Some (provider_with SignedIn None))))
   \<and> \<not> no_logout_op (signed_in_world (Some (provider_with SignedIn None)))
   \<and> fst (logout nobody_cancels (signed_in_world (Some (provider_with SignedIn None))))
       = Resolved
   \<and> last (trace (snd (logout nobody_cancels
        (signed_in_world (Some (provider_with SignedIn None))))))
       = Fired logoutCompleted
           \<lparr>userDetails = None, buttonType = avatarAndName, isFlyoutOpen = False,
            image = Some ''blob:ada'', flyout = Some \<lparr>isOpen = False\<rparr>\<rparr>
   \<and> image (widget (snd (logout nobody_cancels
        (signed_in_world (Some (provider_with SignedIn None)))))) \<noteq> None"
  by (simp add: logout_def fireCustomEvent_def hideFlyout_def flyout_close_def on_closed_def
      signed_in_world_def signed_in_widget_def provider_with_def nobody_cancels_def
      no_logout_op_def)

text \<open>
  C2, amended. Take a call of \<^verbatim>\<open>logout()\<close> in which no listener suppresses
  logoutInitiated and the global provider has a \<^verbatim>\<open>logout\<close> whose promise resolves,
  on a widget whose flyout flag is set only if its flyout element exists (which is so in
  every run, \<open>reachable_flag_element\<close>). Then \<^verbatim>\<open>logout()\<close> resolves; the user
  details are cleared, the flyout is closed and the flag is reset, and the cached image
  is left as it was; the trace is logoutInitiated, the provider call, the closing of the
  flyout if the element exists, and last logoutCompleted, dispatched on the widget in its
  final state, hence after the clearing and the closing.
\<close>

theorem logout_clears_then_completes:
  assumes "\<not> L logoutInitiated (widget s)"
    and "globalProvider s = Some p"
    and "logout_op p = Some f"
    and "f (state p) = (Resolved, st)"
    and "isFlyoutOpen (widget s) \<longrightarrow> flyout (widget s) \<noteq> None"
  shows "fst (logout L s) = Resolved
    \<and> userDetails (widget (snd (logout L s))) = None
    \<and> \<not> isFlyoutOpen (widget (snd (logout L s)))
    \<and> map_option isOpen (flyout (widget (snd (logout L s))))
        = map_option (\<lambda>_. False) (flyout (widget s))
    \<and> image (widget (snd (logout L s))) = image (widget s)
    \<and> since s (snd (logout L s)) =
        [Fired logoutInitiated (widget s), ProviderLogout]
        @ (if flyout (widget s) = None then [] else [FlyoutClose])
        @ [Fired logoutCompleted (widget (snd (logout L s)))]"
  using assms
  by (auto simp add: logout_def fireCustomEvent_def hideFlyout_def flyout_close_def
      on_closed_def since_def Let_def split: option.splits)

theorem logout_clears_then_completes_witness:
  "\<not> nobody_cancels logoutInitiated
       (widget (signed_in_world (Some (provider_with SignedIn None))))
   \<and> logout_op (provider_with SignedIn None) = Some (\<lambda>_. (Resolved, SignedOut))
   \<and> userDetails (widget (snd (logout nobody_cancels
        (signed_in_world (Some (provider_with SignedIn None)))))) = None
   \<and> image (widget (snd (logout nobody_cancels
        (signed_in_world (Some (provider_with SignedIn None)))))) = Some ''blob:ada''
   \<and> fired (since (signed_in_world (Some (provider_with SignedIn None)))
        (snd (logout nobody_cancels (signed_in_world (Some (provider_with SignedIn None))))))
       = [logoutInitiated, logoutCompleted]"
  using logout_clears_then_completes
    [of nobody_cancels "signed_in_world (Some (provider_with SignedIn None))"
      "provider_with SignedIn None" "\<lambda>_. (Resolved, SignedOut)" SignedOut]
  by (simp add: signed_in_world_def signed_in_widget_def provider_with_def nobody_cancels_def)

subsection \<open>loadState\<close>

text \<open>
  C4, as stated, has \<^verbatim>\<open>loadState()\<close> clear the user details in every case other than
  "signed-in provider, nothing cached". The guard of line 174 does otherwise: with user
  details cached (or with no provider) \<^verbatim>\<open>loadState()\<close> does nothing. Here the
  provider is signed out and the widget shows Ada; after \<^verbatim>\<open>loadState()\<close> it still
  does.
\<close>

theorem loadState_keeps_details_counterexample:
  "map_option state (globalProvider (signed_in_world (Some (provider_with SignedOut None))))
     = Some SignedOut
   \<and> fst (loadState (signed_in_world (Some (provider_with SignedOut None)))) = Resolved
   \<and> userDetails (widget (snd (loadState
        (signed_in_world (Some (provider_with SignedOut None)))))) = Some ''Ada''"
  by (simp add: loadState_def signed_in_world_def signed_in_widget_def provider_with_def)

text \<open>
  C4, amended. When a global provider exists and no user details are cached: if the
  provider's state is \<open>SignedIn\<close>, \<^verbatim>\<open>loadState()\<close> executes one batch holding the two
  requests \<open>me\<close> and \<open>me/photo/$value\<close> and, when the batch succeeds, takes the cached
  image and the user details from that one response; if the state is anything else, no
  batch is executed and the user details are null afterwards. When there is no
  provider, or user details are cached already, \<^verbatim>\<open>loadState()\<close> changes nothing.
\<close>

theorem loadState_cases:
  "(globalProvider s = Some p \<and> userDetails (widget s) = None \<and> state p = SignedIn
    \<longrightarrow> since s (snd (loadState s)) =
          [BatchExecute [(''me'', ''me'', [''user.read'']),
                         (''photo'', ''me/photo/$value'', [''user.read''])]]
        \<and> (graph p [(''me'', ''me'', [''user.read'']),
                     (''photo'', ''me/photo/$value'', [''user.read''])] = Inr r
           \<longrightarrow> fst (loadState s) = Resolved
               \<and> image (widget (snd (loadState s))) = photo r
               \<and> userDetails (widget (snd (loadState s))) = me r))
   \<and> (globalProvider s = Some p \<and> userDetails (widget s) = None \<and> state p \<noteq> SignedIn
    \<longrightarrow> fst (loadState s) = Resolved
        \<and> since s (snd (loadState s)) = []
        \<and> userDetails (widget (snd (loadState s))) = None)
   \<and> (globalProvider s = None \<or> userDetails (widget s) \<noteq> None
    \<longrightarrow> loadState s = (Resolved, s))"
  by (auto simp add: loadState_def createBatch_def batch_get_def since_def Let_def
      split: option.splits sum.splits)

theorem loadState_cases_witness:
  "state (provider_with SignedIn None) = SignedIn
   \<and> graph (provider_with SignedIn None)
        [(''me'', ''me'', [''user.read'']), (''photo'', ''me/photo/$value'', [''user.read''])]
       = Inr ada
   \<and> trace (snd (loadState (initial (Some (provider_with SignedIn None)))))
       = [BatchExecute [(''me'', ''me'', [''user.read'']),
                        (''photo'', ''me/photo/$value'', [''user.read''])]]
   \<and> userDetails (widget (snd (loadState (initial (Some (provider_with SignedIn None))))))
       = Some ''Ada''
   \<and> image (widget (snd (loadState (initial (Some (provider_with SignedIn None))))))
       = Some ''blob:ada''
   \<and> userDetails (widget (snd (loadState (initial (Some (provider_with Loading None))))))
       = None
   \<and> widget (snd (loadState (signed_in_world (Some (provider_with SignedOut None)))))
       = signed_in_widget"
  using loadState_cases [of "initial (Some (provider_with SignedIn None))"
      "provider_with SignedIn None" ada]
    loadState_cases [of "initial (Some (provider_with Loading None))"
      "provider_with Loading None" ada]
    loadState_cases [of "signed_in_world (Some (provider_with SignedOut None))"
      "provider_with SignedOut None" ada]
  by (simp add: initial_def MgtLogin_new_def signed_in_world_def signed_in_widget_def
      provider_with_def ada_def since_def)

subsection \<open>Clicks and the flyout\<close>

text \<open>
  C5. A click on the button of a rendered widget (the button and the flyout element
  come from the same template, so the element exists) is routed by the user details:
  with user details it is \<^verbatim>\<open>showFlyout()\<close>, which calls \<^verbatim>\<open>open()\<close> on the flyout
  and leaves it open with the flag set; without user details it is \<^verbatim>\<open>login()\<close>.
\<close>

theorem click_routing:
  "(userDetails (widget s) \<noteq> None \<and> flyout (widget s) = Some f
    \<longrightarrow> onClick L s = showFlyout s
        \<and> since s (onClick L s) = [FlyoutOpen]
        \<and> isFlyoutOpen (widget (onClick L s))
        \<and> map_option isOpen (flyout (widget (onClick L s))) = Some True)
   \<and> (userDetails (widget s) = None \<longrightarrow> onClick L s = snd (login L s))"
  by (simp add: onClick_def showFlyout_def flyout_open_def on_opened_def since_def)

theorem click_routing_witness:
  "userDetails (widget (signed_in_world None :: (string, string) world)) \<noteq> None
   \<and> flyout (widget (signed_in_world None :: (string, string) world)) = Some \<lparr>isOpen = False\<rparr>
   \<and> isFlyoutOpen (widget (onClick nobody_cancels (signed_in_world None)))
   \<and> trace (onClick nobody_cancels (signed_in_world None)) = [FlyoutOpen]
   \<and> userDetails (widget (step nobody_cancels Render
        (initial (Some (provider_with SignedOut (Some login_succeeds)))))) = None
   \<and> fired (trace (onClick nobody_cancels (step nobody_cancels Render
        (initial (Some (provider_with SignedOut (Some login_succeeds)))))))
       = [loginInitiated, loginCompleted]"
proof -
  let ?a = "signed_in_world None :: (string, string) world"
  let ?b = "step nobody_cancels Render
    (initial (Some (provider_with SignedOut (Some login_succeeds))))"
  have a: "userDetails (widget ?a) \<noteq> None \<and> flyout (widget ?a) = Some \<lparr>isOpen = False\<rparr>"
    by (simp add: signed_in_world_def signed_in_widget_def)
  with click_routing [of ?a "\<lparr>isOpen = False\<rparr>" nobody_cancels]
  have "isFlyoutOpen (widget (onClick nobody_cancels ?a))
      \<and> since ?a (onClick nobody_cancels ?a) = [FlyoutOpen]"
    by blast
  then have a': "isFlyoutOpen (widget (onClick nobody_cancels ?a))
      \<and> trace (onClick nobody_cancels ?a) = [FlyoutOpen]"
    by (simp add: since_def signed_in_world_def)
  have b: "userDetails (widget ?b) = None"
    by (simp add: initial_def MgtLogin_new_def renderFlyout_def)
  with click_routing [of ?b _ nobody_cancels]
  have "onClick nobody_cancels ?b = snd (login nobody_cancels ?b)"
    by blast
  then have b': "fired (trace (onClick nobody_cancels ?b)) = [loginInitiated, loginCompleted]"
    by (simp add: login_def fireCustomEvent_def initial_def MgtLogin_new_def renderFlyout_def
        provider_with_def nobody_cancels_def login_succeeds_def)
  from a a' b b' show ?thesis by simp
qed

text \<open>
  C6, as stated, fails because \<^verbatim>\<open>userDetails\<close> is a public property: the host
  page assigns a person, the widget is rendered, a click opens the flyout, and the host
  page assigns null. The flyout flag is then set with no user details.
\<close>

theorem flyout_open_without_details_counterexample:
  "isFlyoutOpen (widget (run nobody_cancels
      [SetUserDetails (Some ''Ada''), Render, Click, SetUserDetails None]
      (initial (Some (provider_with SignedIn None)))))
   \<and> userDetails (widget (run nobody_cancels
      [SetUserDetails (Some ''Ada''), Render, Click, SetUserDetails None]
      (initial (Some (provider_with SignedIn None))))) = None"
  by (simp add: onClick_def showFlyout_def flyout_open_def on_opened_def renderFlyout_def
      initial_def MgtLogin_new_def)

text \<open>
  C6, amended. In every state that a freshly constructed widget reaches by clicks, calls
  of \<^verbatim>\<open>login()\<close>, \<^verbatim>\<open>logout()\<close> and \<^verbatim>\<open>loadState()\<close>, renderings, dismissals of
  the flyout, changes of the provider and assignments of the public properties, provided
  the host page never assigns null user details while the flyout flag is set: if the
  flag is set, the user details are non-null. And in any state whatever, the flyout
  content (profile and Sign Out) is rendered exactly when user details are present.
\<close>

theorem flyout_open_needs_details:
  "(orderly L is (initial p) \<and> isFlyoutOpen (widget (run L is (initial p)))
    \<longrightarrow> userDetails (widget (run L is (initial p))) \<noteq> None)
   \<and> (renderFlyoutContent w \<noteq> None \<longleftrightarrow> userDetails w \<noteq> None)"
proof -
  have "flyout_inv (widget (initial p :: ('a, 'b) world))"
    by (simp add: flyout_inv_def initial_def MgtLogin_new_def)
  then have "orderly L is (initial p) \<Longrightarrow> flyout_inv (widget (run L is (initial p)))"
    by (rule run_flyout_inv [rotated])
  then have first: "orderly L is (initial p) \<and> isFlyoutOpen (widget (run L is (initial p)))
      \<longrightarrow> userDetails (widget (run L is (initial p))) \<noteq> None"
    by (auto simp add: flyout_inv_def split: if_splits)
  have second: "renderFlyoutContent w \<noteq> None \<longleftrightarrow> userDetails w \<noteq> None"
    by (simp add: renderFlyoutContent_def split: option.splits)
  from first second show ?thesis by blast
qed

theorem flyout_open_needs_details_witness:
  "orderly nobody_cancels [LoadState, Render, Click]
      (initial (Some (provider_with SignedIn None)))
   \<and> isFlyoutOpen (widget (run nobody_cancels [LoadState, Render, Click]
      (initial (Some (provider_with SignedIn None)))))
   \<and> userDetails (widget (run nobody_cancels [LoadState, Render, Click]
      (initial (Some (provider_with SignedIn None))))) \<noteq> None"
proof -
  let ?s = "initial (Some (provider_with SignedIn None))"
  have r: "widget (run nobody_cancels [LoadState, Render, Click] ?s)
      = \<lparr>userDetails = Some ''Ada'', buttonType = avatarAndName, isFlyoutOpen = True,
         image = Some ''blob:ada'', flyout = Some \<lparr>isOpen = True\<rparr>\<rparr>"
    by (simp add: loadState_def createBatch_def batch_get_def onClick_def showFlyout_def
        flyout_open_def on_opened_def renderFlyout_def initial_def MgtLogin_new_def
        provider_with_def ada_def)
  have o: "orderly nobody_cancels [LoadState, Render, Click] ?s"
    by simp
  from r have f: "isFlyoutOpen (widget (run nobody_cancels [LoadState, Render, Click] ?s))"
    by simp
  from flyout_open_needs_details [of nobody_cancels "[LoadState, Render, Click]"
      "Some (provider_with SignedIn None)"] o f
  have "userDetails (widget (run nobody_cancels [LoadState, Render, Click] ?s)) \<noteq> None"
    by blast
  with o f show ?thesis by blast
qed

end
